theory Spec2Isabelle
  imports Complex_Main "HOL-Library.Multiset"
begin

section \<open>The results script \<^verbatim>\<open>visualize.py\<close>\<close>

text \<open>
  The script is a straight line of module-level statements over four libraries: it loads
  \<^verbatim>\<open>battleship_results.csv\<close> with pandas, selects the \<^verbatim>\<open>average_shots\<close> of three
  strategies, takes numpy means and standard deviations, saves a bar chart and a box plot
  with matplotlib, runs three scipy t-tests and prints them.

  The embedding follows the script statement by statement. What the script calls in the
  libraries is written out as far as the script depends on it:
  \<^item> numbers are reals extended by the special values of numpy's float64
    (\<open>nan\<close>, \<open>inf\<close>, \<open>-inf\<close>); rounding, overflow and the sign of zero are left out;
  \<^item> the CSV parser behind \<^verbatim>\<open>pd.read_csv\<close> and the distribution function of Student's t behind
    \<^verbatim>\<open>stats.ttest_ind\<close> are parameters (\<open>parse_csv\<close>, \<open>t_cdf\<close>);
  \<^item> a formatted float of an f-string is kept as the pair of the value and its format
    specification.
\<close>

subsection \<open>float64 values\<close>










subsection \<open>pandas: the loaded table and the selection of a sample\<close>

text \<open>
  A row of the results table has the two columns the script reads; the header of the file
  says which columns the table really has, and reading a column that is not there raises
  \<open>KeyError\<close>. The \<^verbatim>\<open>strategy\<close> column holds strings and the \<^verbatim>\<open>average_shots\<close> column
  holds finite numbers, as section 6 of the specification requires of the input.
\<close>

type_synonym path = string

datatype py_error = FileNotFoundError path | ParserError string | KeyError string

record row =
  strategy :: string
  average_shots :: real

record dataframe =
  columns :: "string list"
  rws :: "row list"

text \<open>\<^verbatim>\<open>df['strategy']\<close> and \<^verbatim>\<open>df['average_shots']\<close>.\<close>

definition getitem_strategy :: "dataframe \<Rightarrow> py_error + string list" where
  "getitem_strategy df =
     (if ''strategy'' \<in> set (columns df) then Inr (map strategy (rws df))
      else Inl (KeyError ''strategy''))"

definition getitem_average_shots :: "dataframe \<Rightarrow> py_error + real list" where
  "getitem_average_shots df =
     (if ''average_shots'' \<in> set (columns df) then Inr (map average_shots (rws df))
      else Inl (KeyError ''average_shots''))"

text \<open>\<^verbatim>\<open>series == label\<close>: the boolean mask, one entry per row.\<close>

definition series_eq :: "string list \<Rightarrow> string \<Rightarrow> bool list" where
  "series_eq s label = map (\<lambda>v. v = label) s"

text \<open>\<^verbatim>\<open>df[mask]\<close>: the rows at which the mask is true, the columns unchanged.\<close>

definition getitem_mask :: "dataframe \<Rightarrow> bool list \<Rightarrow> dataframe" where
  "getitem_mask df msk = df\<lparr>rws := map snd (filter fst (zip msk (rws df)))\<rparr>"

text \<open>
  The expression of lines 10 to 12,
  \<^verbatim>\<open>df[df['strategy'] == label]['average_shots'].values\<close>, evaluated left to right.
\<close>

definition select_values :: "dataframe \<Rightarrow> string \<Rightarrow> py_error + real list" where
  "select_values df label =
     (case getitem_strategy df of
        Inl e \<Rightarrow> Inl e
      | Inr s \<Rightarrow> getitem_average_shots (getitem_mask df (series_eq s label)))"

subsection \<open>numpy: mean and standard deviation\<close>




subsection \<open>scipy: the independent two-sample t-test\<close>






subsection \<open>matplotlib and the process state\<close>


















subsection \<open>The script\<close>








subsection \<open>The quantities the specification names\<close>







definition rows_with :: "dataframe \<Rightarrow> string \<Rightarrow> row list" where
  "rows_with df label = filter (\<lambda>r. strategy r = label) (rws df)"








subsection \<open>Example inputs\<close>


definition mixed_table :: dataframe where
  "mixed_table =
     \<lparr>columns = [''strategy'', ''average_shots''],
      rws = [\<lparr>strategy = ''Random'', average_shots = 10\<rparr>,
             \<lparr>strategy = ''PDF'', average_shots = 5\<rparr>,
             \<lparr>strategy = ''Greedy'', average_shots = 99\<rparr>,
             \<lparr>strategy = ''Random'', average_shots = 12\<rparr>,
             \<lparr>strategy = ''Hunt and Target'', average_shots = 3\<rparr>]\<rparr>"







section \<open>Properties\<close>

subsection \<open>The partitioner\<close>

lemma mask_filter: "map snd (filter fst (zip (map P xs) xs)) = filter P xs"
  by (induction xs) auto

lemma select_values_cases:
  "select_values df label =
     (if ''strategy'' \<notin> set (columns df) then Inl (KeyError ''strategy'')
      else if ''average_shots'' \<notin> set (columns df) then Inl (KeyError ''average_shots'')
      else Inr (map average_shots (rows_with df label)))"
  by (simp add: select_values_def getitem_strategy_def getitem_average_shots_def
      getitem_mask_def series_eq_def rows_with_def mask_filter comp_def)

lemma select_values_eq:
  assumes "''strategy'' \<in> set (columns df)" "''average_shots'' \<in> set (columns df)"
  shows "select_values df label = Inr (map average_shots (rows_with df label))"
  using assms by (simp add: select_values_cases)



subsection \<open>Mean, variance and standard deviation\<close>
















subsection \<open>The t-test\<close>




subsection \<open>The script in closed form\<close>




subsection \<open>Claims about the samples and the charts\<close>

text \<open>
  C1. For every loaded table that has the two columns, and for every label (so for each of
  \<^verbatim>\<open>Random\<close>, \<^verbatim>\<open>PDF\<close> and \<^verbatim>\<open>Hunt and Target\<close>, the three the script uses), the expression of lines 10 to 12 yields
  the \<^verbatim>\<open>average_shots\<close> of exactly the rows whose \<^verbatim>\<open>strategy\<close> equals the label, in
  the order of the table: it is the subsequence of the column at the positions of these
  rows.
\<close>

theorem partition_selects_label_rows_in_order:
  assumes "''strategy'' \<in> set (columns df)" and "''average_shots'' \<in> set (columns df)"
  shows "select_values df label =
           Inr (map average_shots (filter (\<lambda>r. strategy r = label) (rws df))) \<and>
         map average_shots (filter (\<lambda>r. strategy r = label) (rws df)) =
           nths (map average_shots (rws df))
                {i. i < length (rws df) \<and> strategy (rws df ! i) = label}"
proof
  show "select_values df label =
          Inr (map average_shots (filter (\<lambda>r. strategy r = label) (rws df)))"
    using assms by (simp add: select_values_eq rows_with_def)
next
  have "filter (\<lambda>r. strategy r = label) (rws df) =
        nths (rws df) {i. i < length (rws df) \<and> strategy (rws df ! i) = label}"
    by (rule filter_eq_nths)
  then show "map average_shots (filter (\<lambda>r. strategy r = label) (rws df)) =
        nths (map average_shots (rws df))
             {i. i < length (rws df) \<and> strategy (rws df ! i) = label}"
    by (simp add: nths_map)
qed

theorem partition_selects_label_rows_in_order_witness:
  "''strategy'' \<in> set (columns mixed_table) \<and>
   ''average_shots'' \<in> set (columns mixed_table) \<and>
   select_values mixed_table ''Random'' = Inr [10, 12] \<and>
   select_values mixed_table ''PDF'' = Inr [5] \<and>
   select_values mixed_table ''Hunt and Target'' = Inr [3]"
  using partition_selects_label_rows_in_order [of mixed_table "''Random''", THEN conjunct1]
    partition_selects_label_rows_in_order [of mixed_table "''PDF''", THEN conjunct1]
    partition_selects_label_rows_in_order [of mixed_table "''Hunt and Target''", THEN conjunct1]
  by (simp add: mixed_table_def)



subsection \<open>Claims about the t-tests and the console\<close>








subsection \<open>Claims about failures, effects and dependence on the input\<close>












end
